theory Spec2Isabelle
  imports Complex_Main "HOL-Library.Log_Nat"
begin

section \<open>Python numbers and their formatting\<close>

text \<open>
  Integers are Python's unbounded ints (\<open>int\<close>). A finite float is modelled by the
  rational number it denotes. Every float operation rounds its exact result to the
  nearest number with a 53-bit significand, ties to even (\<open>fl\<close>); an int true division
  \<open>a / b\<close> and a float literal are rounded the same way. The exponent range of binary64
  (overflow, subnormal numbers) is not modelled.
\<close>

definition round_half_even :: "rat \<Rightarrow> int" where
  "round_half_even x =
     (let f = \<lfloor>x\<rfloor>; d = x - of_int f
      in if d < 1 / 2 then f else if 1 / 2 < d then f + 1 else if even f then f else f + 1)"

text \<open>\<open>ilog2 q\<close> is the binary exponent of a positive \<open>q\<close>: \<open>2^e \<le> q < 2^(e+1)\<close>.\<close>

definition ilog2 :: "rat \<Rightarrow> int" where
  "ilog2 q =
     (let d = bitlen (fst (quotient_of q)) - bitlen (snd (quotient_of q))
      in if 2 powi d \<le> q then d else d - 1)"

definition fl :: "rat \<Rightarrow> rat" where
  "fl q =
     (if q = 0 then 0
      else let u = 2 powi (ilog2 \<bar>q\<bar> - 52)
           in sgn q * of_int (round_half_even (\<bar>q\<bar> / u)) * u)"

text \<open>Python's \<open>x or d\<close> on a nullable number: \<open>None\<close> and zero are both falsy.\<close>

definition py_or :: "'a::zero option \<Rightarrow> 'a \<Rightarrow> 'a" where
  "py_or x d = (case x of None \<Rightarrow> d | Some v \<Rightarrow> if v = 0 then d else v)"

text \<open>The specification's reading of a null: the number zero.\<close>

definition nz :: "'a::zero option \<Rightarrow> 'a" where
  "nz x = (case x of None \<Rightarrow> 0 | Some v \<Rightarrow> v)"

fun digits :: "nat \<Rightarrow> string" where
  "digits n =
     (if n < 10 then [''0123456789'' ! n]
      else digits (n div 10) @ [''0123456789'' ! (n mod 10)])"

fun group3 :: "string \<Rightarrow> string" where
  "group3 ds =
     (if length ds \<le> 3 then ds
      else group3 (take (length ds - 3) ds) @ '','' @ drop (length ds - 3) ds)"

declare digits.simps [simp del] group3.simps [simp del]

text \<open>\<open>str(n)\<close> and the format specifications \<open>:,\<close>, \<open>:.1f\<close> and \<open>:.0f\<close>.\<close>

definition str_int :: "int \<Rightarrow> string" where
  "str_int n = (if n < 0 then ''-'' else []) @ digits (nat \<bar>n\<bar>)"

definition fmt_comma :: "int \<Rightarrow> string" where
  "fmt_comma n = (if n < 0 then ''-'' else []) @ group3 (digits (nat \<bar>n\<bar>))"

definition fmt_f1 :: "rat \<Rightarrow> string" where
  "fmt_f1 x =
     (let n = nat (round_half_even (\<bar>x\<bar> * 10))
      in (if x < 0 then ''-'' else []) @ digits (n div 10) @ ''.'' @ digits (n mod 10))"

definition fmt_f0 :: "rat \<Rightarrow> string" where
  "fmt_f0 x = (if x < 0 then ''-'' else []) @ digits (nat (round_half_even \<bar>x\<bar>))"

section \<open>Aggregate rows and KPIs\<close>

text \<open>
  The single row each aggregation query returns. Every column is nullable. The
  \<open>COUNT\<close> columns are ints, the \<open>AVG\<close> and \<open>SUM\<close> columns are read as floats.
\<close>

record RawNetworkMetrics =
  TOTAL_TOWERS :: "int option"
  AVG_SUCCESS_RATE :: "rat option"
  CRITICAL_ISSUES :: "int option"
  AVG_DL_UTILIZATION :: "rat option"
  TOTAL_THROUGHPUT :: "rat option"
  PREMIUM_TOWERS :: "int option"

record RawCustomerMetrics =
  TOTAL_TICKETS :: "int option"
  AVG_SENTIMENT :: "rat option"
  CRITICAL_TICKETS :: "int option"
  UNIQUE_CUSTOMERS :: "int option"
  SATISFIED_CUSTOMERS :: "int option"

text \<open>
  One entry of the \<open>exec_kpis\<close> dictionary: the keys \<open>value\<close>, \<open>trend\<close> and \<open>icon\<close>.
  Glyphs outside ASCII are written as shortcodes (\<open>:star:\<close>).
\<close>

record kpi =
  kpi_value :: string
  kpi_trend :: rat
  kpi_icon :: string

text \<open>The numbers behind the formatted values, as \<open>load_executive_dashboard_data\<close> computes them.\<close>

definition network_uptime :: "RawNetworkMetrics \<Rightarrow> rat" where
  "network_uptime net_metrics = fl (py_or (AVG_SUCCESS_RATE net_metrics) 0 * 100)"

definition customer_satisfaction :: "RawCustomerMetrics \<Rightarrow> rat" where
  "customer_satisfaction cust_metrics = fl (fl (py_or (AVG_SENTIMENT cust_metrics) 0 + 1) * 50)"

definition premium_performance :: "RawNetworkMetrics \<Rightarrow> rat" where
  "premium_performance net_metrics =
     fl (fl (of_int (py_or (PREMIUM_TOWERS net_metrics) 0)
             / of_int (max (py_or (TOTAL_TOWERS net_metrics) 1) 1)) * 100)"

definition exec_kpis :: "RawNetworkMetrics \<Rightarrow> RawCustomerMetrics \<Rightarrow> (string \<times> kpi) list" where
  "exec_kpis net_metrics cust_metrics =
     [(''Network Uptime'',
         \<lparr>kpi_value = fmt_f1 (network_uptime net_metrics) @ ''%'',
          kpi_trend = fl (21 / 10), kpi_icon = '':green_circle:''\<rparr>),
      (''Active Infrastructure'',
         \<lparr>kpi_value = fmt_comma (py_or (TOTAL_TOWERS net_metrics) 0),
          kpi_trend = fl (8 / 10), kpi_icon = '':satellite:''\<rparr>),
      (''Customer Satisfaction'',
         \<lparr>kpi_value = fmt_f1 (customer_satisfaction cust_metrics) @ ''%'',
          kpi_trend = fl (- 12 / 10), kpi_icon = '':blush:''\<rparr>),
      (''Revenue Protection'',
         \<lparr>kpi_value = ''$2.8M'', kpi_trend = fl (57 / 10), kpi_icon = '':moneybag:''\<rparr>),
      (''Risk Incidents'',
         \<lparr>kpi_value = str_int (py_or (CRITICAL_ISSUES net_metrics) 0),
          kpi_trend = fl (- 83 / 10), kpi_icon = '':warning:''\<rparr>),
      (''Premium Performance'',
         \<lparr>kpi_value = fmt_f0 (premium_performance net_metrics) @ ''%'',
          kpi_trend = fl (34 / 10), kpi_icon = '':star:''\<rparr>)]"

section \<open>The rendering framework\<close>

text \<open>
  The page is a script over the rendering framework (streamlit). What a run writes to
  the page is a list of elements, in order. Markup that the source builds as literal
  HTML is kept as one structured element for each component; long literal prose is cut
  to its heading. The framework's interface, as the script relies on it:
  \<^item> \<open>st.columns(n)\<close> makes \<open>n\<close> columns, and raises when \<open>n\<close> is not positive
    (or, for a list of weights, when the list is empty or holds a weight that is not
    positive);
  \<^item> \<open>st.stop()\<close> ends the run of the script at once;
  \<^item> an exception that nothing catches ends the run.
\<close>

datatype exn = StreamlitAPIException | ZeroDivisionError | KeyError string

datatype element =
    Markdown string
  | Info string
  | Success string
  | Warning string
  | Error string
  | Metric string string
  | Button string
  | Columns nat
  | InColumn nat element
  | CustomCss
  | SidebarBrand
  | PageHeader string string string
  | InfoBox string string string
  | PageFooter
  | MetricCard string string "(string \<times> string) option"
  | InsightsCard string string string string string
  | RecommendationsCard string "(nat \<times> string) list"
  | MetricTile string string string
  | ProgressTracker int int rat string
  | Panel string

datatype signal = Raised exn | Halted

text \<open>
  A piece of script: the elements it wrote, and either the value it returned or the
  signal that ended it.
\<close>

type_synonym 'a render = "element list \<times> (signal + 'a)"

definition emit :: "element \<Rightarrow> unit render" where
  "emit e = ([e], Inr ())"

definition py_raise :: "exn \<Rightarrow> 'a render" where
  "py_raise e = ([], Inl (Raised e))"

definition st_stop :: "'a render" where
  "st_stop = ([], Inl Halted)"

definition bind_render :: "'a render \<Rightarrow> ('a \<Rightarrow> 'b render) \<Rightarrow> 'b render" where
  "bind_render m f =
     (case snd m of
        Inl s \<Rightarrow> (fst m, Inl s)
      | Inr a \<Rightarrow> (fst m @ fst (f a), snd (f a)))"

definition discard :: "'a render \<Rightarrow> unit render" where
  "discard m = bind_render m (\<lambda>_. ([], Inr ()))"

text \<open>Statements one after the other: the first signal ends the sequence.\<close>

fun run_all :: "unit render list \<Rightarrow> unit render" where
  "run_all [] = ([], Inr ())"
| "run_all (m # ms) = bind_render m (\<lambda>_. run_all ms)"

text \<open>\<open>with cols[i]: ...\<close> places what the body writes in column \<open>i\<close>.\<close>

definition in_column :: "nat \<Rightarrow> unit render \<Rightarrow> unit render" where
  "in_column i m = (map (InColumn i) (fst m), snd m)"

definition st_columns :: "int \<Rightarrow> nat render" where
  "st_columns spec =
     (if spec \<le> 0 then py_raise StreamlitAPIException
      else ([Columns (nat spec)], Inr (nat spec)))"

definition st_columns_weights :: "rat list \<Rightarrow> nat render" where
  "st_columns_weights weights =
     (if weights = [] \<or> list_ex (\<lambda>x. x \<le> 0) weights then py_raise StreamlitAPIException
      else ([Columns (length weights)], Inr (length weights)))"

text \<open>
  \<open>st.cache_resource\<close> and \<open>st.cache_data(ttl)\<close> keep what the decorated function
  returned: a call that finds a value in the slot (for \<open>cache_data\<close>, younger than the
  time to live) returns it without running the function; otherwise the function runs
  and, when it returns, its value is put in the slot. A function that ends on a signal
  leaves the slot as it was. The model keeps the value and the slot. On a call served
  from the slot the framework also writes again the elements recorded when the value was
  computed (here the \<open>st.error\<close> line of a failed load); the model leaves these out, so
  of such a call only the value returned and the slot are stated below.
\<close>

definition st_cache_resource :: "'a option \<Rightarrow> 'a render \<Rightarrow> 'a render \<times> 'a option" where
  "st_cache_resource slot body =
     (case slot of
        Some v \<Rightarrow> (([], Inr v), slot)
      | None \<Rightarrow> (body, case snd body of Inl _ \<Rightarrow> None | Inr v \<Rightarrow> Some v))"

definition st_cache_data ::
  "nat \<Rightarrow> nat \<Rightarrow> (nat \<times> 'a) option \<Rightarrow> 'a render \<Rightarrow> 'a render \<times> (nat \<times> 'a) option" where
  "st_cache_data ttl now slot body =
     (let miss = (body, case snd body of Inl _ \<Rightarrow> slot | Inr v \<Rightarrow> Some (now, v))
      in case slot of
           None \<Rightarrow> miss
         | Some (stored_at, v) \<Rightarrow> if now < stored_at + ttl then (([], Inr v), slot) else miss)"

section \<open>The component library (utils/design_system.py)\<close>

text \<open>
  A component of the library that main.py defines again as a fallback carries the
  prefix \<open>ds_\<close> here, and main.py's definition the prefix \<open>fallback_\<close>.
\<close>

definition inject_custom_css :: "unit render" where
  "inject_custom_css = emit CustomCss"

definition create_page_header :: "string \<Rightarrow> string \<Rightarrow> string \<Rightarrow> unit render" where
  "create_page_header title description icon = emit (PageHeader icon title description)"

definition create_metric_card ::
  "string \<Rightarrow> string \<Rightarrow> string option \<Rightarrow> string \<Rightarrow> unit render" where
  "create_metric_card title v delta delta_color =
     emit (MetricCard title v
       (case delta of
          None \<Rightarrow> None
        | Some d \<Rightarrow>
            if d = [] then None
            else Some (case map_of [(''normal'', ''color: #6c757d;''),
                                    (''positive'', ''color: #28a745;''),
                                    (''negative'', ''color: #dc3545;'')] delta_color of
                         None \<Rightarrow> ''color: #6c757d;'' | Some c \<Rightarrow> c, d)))"

definition create_info_box :: "string \<Rightarrow> string \<Rightarrow> unit render" where
  "create_info_box message box_type =
     emit (InfoBox box_type
       (case map_of [(''info'', '':information_source:''), (''success'', '':white_check_mark:''),
                     (''warning'', '':warning:''), (''error'', '':x:'')] box_type of
          None \<Rightarrow> '':information_source:'' | Some i \<Rightarrow> i)
       message)"

record metric_card_args =
  card_title :: string
  card_value :: string
  card_delta :: "string option"
  card_delta_color :: string

definition create_metric_grid :: "metric_card_args list \<Rightarrow> int \<Rightarrow> unit render" where
  "create_metric_grid metrics columns =
     bind_render (st_columns columns) (\<lambda>n.
       run_all (map (\<lambda>(i, metric).
           in_column (i mod nat columns)
             (create_metric_card (card_title metric) (card_value metric)
                (card_delta metric) (card_delta_color metric)))
         (enumerate 0 metrics)))"

definition create_sidebar_navigation :: "unit render" where
  "create_sidebar_navigation = emit SidebarBrand"

definition add_page_footer :: "unit render" where
  "add_page_footer = run_all [emit (Markdown ''<br><br>''), emit (Markdown ''---''), emit PageFooter]"

text \<open>
  A confidence score is a float; a comparison with a float is exact, and false when
  the float is not a number. The literals \<open>0.8\<close> and \<open>0.6\<close> are the floats nearest to
  them.
\<close>

datatype pyfloat = Finite rat | PosInf | NegInf | NaN

fun py_gt :: "pyfloat \<Rightarrow> rat \<Rightarrow> bool" where
  "py_gt (Finite x) y = (y < x)"
| "py_gt PosInf y = True"
| "py_gt NegInf y = False"
| "py_gt NaN y = False"

fun py_le :: "pyfloat \<Rightarrow> rat \<Rightarrow> bool" where
  "py_le (Finite x) y = (x \<le> y)"
| "py_le PosInf y = False"
| "py_le NegInf y = True"
| "py_le NaN y = False"

definition confidence_color :: "pyfloat \<Rightarrow> string" where
  "confidence_color confidence =
     (if py_gt confidence (fl (8 / 10)) then ''#4caf50''
      else if py_gt confidence (fl (6 / 10)) then ''#ff9800'' else ''#f44336'')"

definition confidence_text :: "pyfloat \<Rightarrow> string" where
  "confidence_text confidence =
     (if py_gt confidence (fl (8 / 10)) then ''High''
      else if py_gt confidence (fl (6 / 10)) then ''Medium'' else ''Low'')"

definition ds_create_ai_insights_card ::
  "string \<Rightarrow> string \<Rightarrow> pyfloat \<Rightarrow> string \<Rightarrow> unit render" where
  "ds_create_ai_insights_card title insight confidence icon =
     emit (InsightsCard icon title (confidence_color confidence)
             (confidence_text confidence @ '' Confidence'') insight)"

definition ds_create_ai_recommendation_list :: "string list \<Rightarrow> string \<Rightarrow> unit render" where
  "ds_create_ai_recommendation_list recommendations title =
     (if recommendations = [] then ([], Inr ())
      else emit (RecommendationsCard title (enumerate 1 recommendations)))"

definition tile_icons :: "string list" where
  "tile_icons = ['':dart:'', '':bar_chart:'', '':zap:'', '':rocket:'', '':mag:'', '':bulb:'',
                 '':circus_tent:'', '':star2:'']"

definition ds_create_ai_metrics_dashboard :: "(string \<times> string) list \<Rightarrow> unit render" where
  "ds_create_ai_metrics_dashboard metrics =
     (if metrics = [] then ([], Inr ())
      else bind_render (st_columns (min 4 (int (length metrics)))) (\<lambda>n.
             run_all (map (\<lambda>(i, (metric, v)).
                 in_column (i mod n)
                   (emit (MetricTile (tile_icons ! (i mod length tile_icons)) v metric)))
               (enumerate 0 metrics))))"

text \<open>
  \<open>(current_step - 1) / total_steps\<close> is a true division of ints: it raises on a zero
  divisor and rounds its quotient to a float; the width \<open>progress*100\<close> rounds again.
\<close>

definition progress_width :: "int \<Rightarrow> int \<Rightarrow> rat" where
  "progress_width current_step total_steps =
     (let progress = fl (of_int (current_step - 1) / of_int total_steps)
      in fl (progress * 100))"

definition create_ai_progress_tracker :: "int \<Rightarrow> int \<Rightarrow> string \<Rightarrow> unit render" where
  "create_ai_progress_tracker current_step total_steps step_name =
     (if total_steps = 0 then py_raise ZeroDivisionError
      else emit (ProgressTracker current_step total_steps
                   (progress_width current_step total_steps) step_name))"

section \<open>Imports of main.py\<close>

text \<open>
  The names bound at the top level of utils/design_system.py: its imports, its three
  classes and its functions, in source order.
\<close>

definition design_system_names :: "string list" where
  "design_system_names =
     [''st'', ''px'', ''go'', ''pd'', ''datetime'', ''time'',
      ''Colors'', ''Typography'', ''Spacing'',
      ''inject_custom_css'', ''create_page_header'', ''create_metric_card'',
      ''create_info_box'', ''show_loading_state'', ''create_status_indicator'',
      ''create_section_header'', ''get_professional_chart_layout'', ''style_plotly_chart'',
      ''create_professional_metric_charts'', ''get_snowflake_session'',
      ''execute_query_with_loading'', ''create_metric_grid'', ''create_sidebar_navigation'',
      ''add_page_footer'', ''create_ai_chat_interface'', ''create_ai_insights_card'',
      ''create_ai_loading_spinner'', ''create_ai_recommendation_list'',
      ''create_ai_metrics_dashboard'', ''create_ai_progress_tracker'',
      ''create_model_selector'', ''format_ai_response'', ''create_ai_metric_card'']"

datatype origin = DesignSystem | MainFallback

text \<open>
  \<open>from m import a, b, ...\<close> binds the names one after the other and raises
  ImportError at the first one that \<open>m\<close> does not define; the names before it stay
  bound. The result is the namespace (latest binding first) and whether it raised.
\<close>

fun import_from ::
  "string list \<Rightarrow> string list \<Rightarrow> (string \<times> origin) list \<Rightarrow> (string \<times> origin) list \<times> bool" where
  "import_from defined [] ns = (ns, False)"
| "import_from defined (n # names) ns =
     (if n \<in> set defined then import_from defined names ((n, DesignSystem) # ns)
      else (ns, True))"

definition first_import :: "string list" where
  "first_import =
     [''inject_custom_css'', ''create_page_header'', ''create_metric_card'',
      ''create_info_box'', ''get_snowflake_session'', ''create_metric_grid'',
      ''create_sidebar_navigation'', ''add_page_footer'', ''execute_query_with_loading'',
      ''create_ai_insights_card'', ''create_ai_metrics_dashboard'', ''format_ai_response'',
      ''create_ai_loading_spinner'', ''create_ai_recommendation_list'',
      ''create_executive_dashboard'', ''create_executive_navigation_grid'',
      ''create_executive_summary_card'', ''create_executive_alert_banner'',
      ''create_executive_demo_controller'']"

definition second_import :: "string list" where
  "second_import =
     [''inject_custom_css'', ''create_page_header'', ''create_metric_card'',
      ''create_info_box'', ''get_snowflake_session'', ''create_metric_grid'',
      ''create_sidebar_navigation'', ''add_page_footer'', ''execute_query_with_loading'']"

definition fallback_defs :: "string list" where
  "fallback_defs =
     [''create_ai_insights_card'', ''create_ai_metrics_dashboard'', ''format_ai_response'',
      ''create_ai_loading_spinner'', ''create_ai_recommendation_list'',
      ''create_executive_dashboard'', ''create_executive_navigation_grid'',
      ''create_executive_summary_card'', ''create_executive_alert_banner'',
      ''create_executive_demo_controller'']"

text \<open>
  The \<open>try\<close>/\<open>except ImportError\<close> block at the top of main.py: the namespace it
  leaves, or \<open>None\<close> when the import in the handler raises as well.
\<close>

definition main_bindings :: "(string \<times> origin) list option" where
  "main_bindings =
     (case import_from design_system_names first_import [] of
        (ns, False) \<Rightarrow> Some ns
      | (ns, True) \<Rightarrow>
          (case import_from design_system_names second_import ns of
             (ns', True) \<Rightarrow> None
           | (ns', False) \<Rightarrow> Some (map (\<lambda>n. (n, MainFallback)) (rev fallback_defs) @ ns')))"

section \<open>The fallback components of main.py\<close>

text \<open>The \<open>replace\<close> call on the insight: a backslash followed by \<open>n\<close> becomes a line feed.\<close>

fun unescape_newlines :: "string \<Rightarrow> string" where
  "unescape_newlines (a # b # s) =
     (if a = CHR 0x5C \<and> b = CHR ''n'' then CHR 0x0A # unescape_newlines s
      else a # unescape_newlines (b # s))"
| "unescape_newlines s = s"

definition fallback_create_ai_insights_card ::
  "string \<Rightarrow> string \<Rightarrow> pyfloat \<Rightarrow> string \<Rightarrow> unit render" where
  "fallback_create_ai_insights_card title insight confidence icon =
     run_all [emit (Markdown (''### '' @ icon @ '' '' @ title)),
              emit (Info (unescape_newlines insight))]"

definition fallback_create_ai_metrics_dashboard :: "(string \<times> string) list \<Rightarrow> unit render" where
  "fallback_create_ai_metrics_dashboard metrics =
     bind_render (st_columns (int (length metrics))) (\<lambda>n.
       run_all (map (\<lambda>(i, (key, v)). in_column (i mod n) (emit (Metric key v)))
         (enumerate 0 metrics)))"

definition fallback_create_ai_loading_spinner :: "string \<Rightarrow> unit render" where
  "fallback_create_ai_loading_spinner message = emit (Info ('':robot: '' @ message))"

definition fallback_create_ai_recommendation_list :: "string list \<Rightarrow> string \<Rightarrow> unit render" where
  "fallback_create_ai_recommendation_list recommendations title =
     run_all (emit (Markdown (''### '' @ title))
       # map (\<lambda>(i, rec). emit (Markdown (str_int (int i) @ ''. '' @ rec)))
           (enumerate 1 recommendations))"

definition create_executive_dashboard :: "(string \<times> kpi) list \<Rightarrow> unit render" where
  "create_executive_dashboard kpis =
     bind_render (st_columns (min 4 (int (length kpis)))) (\<lambda>n.
       run_all (map (\<lambda>(i, (kpi_name, kpi_data)).
           in_column (i mod n) (emit (Metric kpi_name (kpi_value kpi_data))))
         (enumerate 0 kpis)))"

record nav_item =
  nav_title :: string
  nav_description :: string
  nav_icon :: string
  nav_badge :: string
  page_key :: string

definition create_executive_navigation_grid :: "nav_item list \<Rightarrow> unit render" where
  "create_executive_navigation_grid nav_items =
     bind_render (st_columns 3) (\<lambda>n.
       run_all (map (\<lambda>(i, item).
           in_column (i mod 3)
             (run_all [emit (Markdown (''### '' @ nav_icon item @ '' '' @ nav_title item)),
                       emit (Markdown (nav_description item)),
                       emit (Info (nav_badge item))]))
         (enumerate 0 nav_items)))"

definition create_executive_summary_card ::
  "string \<Rightarrow> string \<Rightarrow> (string \<times> string) list option \<Rightarrow> string \<Rightarrow> unit render" where
  "create_executive_summary_card title content metrics icon =
     run_all [emit (Markdown (''### '' @ icon @ '' '' @ title)),
              emit (Markdown content),
              (case metrics of
                 None \<Rightarrow> run_all []
               | Some ms \<Rightarrow>
                   if ms = [] then run_all []
                   else bind_render (st_columns (int (length ms))) (\<lambda>n.
                          run_all (map (\<lambda>(i, (key, v)). in_column (i mod n) (emit (Metric key v)))
                            (enumerate 0 ms))))]"

definition create_executive_alert_banner :: "string \<Rightarrow> string \<Rightarrow> bool \<Rightarrow> unit render" where
  "create_executive_alert_banner message alert_type dismissible =
     (if alert_type = ''success'' then emit (Success message)
      else if alert_type = ''warning'' then emit (Warning message)
      else if alert_type = ''error'' then emit (Error message)
      else emit (Info message))"

record DemoState =
  current_scenario :: string
  demo_active :: bool

definition create_executive_demo_controller :: DemoState where
  "create_executive_demo_controller = \<lparr>current_scenario = ''baseline'', demo_active = False\<rparr>"

section \<open>The dashboard page (main.py)\<close>

text \<open>
  What one run of the script meets outside itself: whether the warehouse hands out a
  session (or the exception's message), what \<open>collect()\<close> returns for each of the two
  aggregation statements (the rows, or the exception's message), which of the two
  buttons was pressed, and the time in seconds.
\<close>

datatype session = ActiveSession

record world =
  active_session :: "string + session"
  network_rows :: "string + RawNetworkMetrics list"
  customer_rows :: "string + RawCustomerMetrics list"
  strategic_report_clicked :: bool
  risk_assessment_clicked :: bool
  clock :: nat

type_synonym load_result =
  "(string \<times> kpi) list option \<times> RawNetworkMetrics option \<times> RawCustomerMetrics option"

text \<open>What lives from one run to the next: the two cache slots.\<close>

record app_state =
  session_resource :: "session option"
  data_slot :: "(nat \<times> load_result) option"

definition get_snowflake_session_body :: "world \<Rightarrow> session render" where
  "get_snowflake_session_body w =
     (case active_session w of
        Inr s \<Rightarrow> ([], Inr s)
      | Inl e \<Rightarrow>
          bind_render (create_info_box (''Failed to connect to Snowflake: '' @ e) ''error'')
            (\<lambda>_. st_stop))"

definition get_snowflake_session :: "world \<Rightarrow> app_state \<Rightarrow> session render \<times> app_state" where
  "get_snowflake_session w s =
     (let r = st_cache_resource (session_resource s) (get_snowflake_session_body w)
      in (fst r, s\<lparr>session_resource := snd r\<rparr>))"

text \<open>
  The body of \<open>load_executive_dashboard_data\<close>. The second statement runs only when the
  first returned; an exception of either is caught, reported with \<open>st.error\<close>, and the
  function returns the triple of \<open>None\<close>s.
\<close>

definition load_failed :: "string \<Rightarrow> load_result render" where
  "load_failed e =
     bind_render (emit (Error (''Error loading executive dashboard data: '' @ e)))
       (\<lambda>_. ([], Inr (None, None, None)))"

definition load_executive_dashboard_data_body :: "world \<Rightarrow> load_result render" where
  "load_executive_dashboard_data_body w =
     (case network_rows w of
        Inl e \<Rightarrow> load_failed e
      | Inr network_data \<Rightarrow>
          (case customer_rows w of
             Inl e \<Rightarrow> load_failed e
           | Inr customer_data \<Rightarrow>
               (case network_data of
                  [] \<Rightarrow> ([], Inr (None, None, None))
                | net_metrics # _ \<Rightarrow>
                    (case customer_data of
                       [] \<Rightarrow> ([], Inr (None, None, None))
                     | cust_metrics # _ \<Rightarrow>
                         ([], Inr (Some (exec_kpis net_metrics cust_metrics),
                                   Some net_metrics, Some cust_metrics))))))"

definition load_executive_dashboard_data ::
  "world \<Rightarrow> app_state \<Rightarrow> load_result render \<times> app_state" where
  "load_executive_dashboard_data w s =
     (let r = st_cache_data 300 (clock w) (data_slot s) (load_executive_dashboard_data_body w)
      in (fst r, s\<lparr>data_slot := snd r\<rparr>))"

text \<open>\<open>str.title()\<close> and the replacement of one character, on ASCII text.\<close>

definition lower_letters :: string where
  "lower_letters = ''abcdefghijklmnopqrstuvwxyz''"

definition upper_letters :: string where
  "upper_letters = ''ABCDEFGHIJKLMNOPQRSTUVWXYZ''"

definition upper_char :: "char \<Rightarrow> char" where
  "upper_char c = (case map_of (zip lower_letters upper_letters) c of None \<Rightarrow> c | Some u \<Rightarrow> u)"

definition lower_char :: "char \<Rightarrow> char" where
  "lower_char c = (case map_of (zip upper_letters lower_letters) c of None \<Rightarrow> c | Some l \<Rightarrow> l)"

fun title_from :: "bool \<Rightarrow> string \<Rightarrow> string" where
  "title_from prev_cased [] = []"
| "title_from prev_cased (c # cs) =
     (if c \<in> set lower_letters \<or> c \<in> set upper_letters
      then (if prev_cased then lower_char c else upper_char c) # title_from True cs
      else c # title_from False cs)"

definition py_title :: "string \<Rightarrow> string" where
  "py_title s = title_from False s"

definition replace_char :: "char \<Rightarrow> char \<Rightarrow> string \<Rightarrow> string" where
  "replace_char a b s = map (\<lambda>c. if c = a then b else c) s"

definition demo_banner_message :: "DemoState \<Rightarrow> string" where
  "demo_banner_message demo_state =
     '':clapper: Executive Demo Active - Scenario: ''
       @ py_title (replace_char (CHR ''_'') (CHR '' '') (current_scenario demo_state))"

definition demo_alert :: "DemoState \<Rightarrow> unit render" where
  "demo_alert demo_state =
     (if demo_active demo_state
      then create_executive_alert_banner (demo_banner_message demo_state) ''info'' True
      else run_all [])"

text \<open>
  The branch taken when all three results are truthy: a dictionary is truthy when it
  is not empty, a row always.
\<close>

definition dashboard_available :: "load_result \<Rightarrow> bool" where
  "dashboard_available r =
     (case r of (Some kpis, Some network_metrics, Some customer_metrics) \<Rightarrow> kpis \<noteq> [] | _ \<Rightarrow> False)"

definition kpi_entry :: "(string \<times> kpi) list \<Rightarrow> string \<Rightarrow> (kpi \<Rightarrow> unit render) \<Rightarrow> unit render" where
  "kpi_entry kpis name cont =
     (case map_of kpis name of None \<Rightarrow> py_raise (KeyError name) | Some k \<Rightarrow> cont k)"

definition executive_summary_content ::
  "RawNetworkMetrics \<Rightarrow> string \<Rightarrow> string \<Rightarrow> string" where
  "executive_summary_content network_metrics premium satisfaction =
     ''**Network Operations Status:** operating at ''
       @ fmt_f1 (network_uptime network_metrics) @ ''% success rate across ''
       @ fmt_comma (py_or (TOTAL_TOWERS network_metrics) 0) @ '' active cell towers. ''
       @ ''**Key Insights:** Premium service delivery maintained across '' @ premium
       @ '' of network infrastructure; Customer satisfaction trending at '' @ satisfaction"

definition summary_metrics :: "(string \<times> string) list" where
  "summary_metrics =
     [(''ROI'', ''+340%''), (''Efficiency'', ''94.2%''), (''Risk Reduction'', ''8.3%''),
      (''Revenue Protected'', ''$2.8M'')]"

definition strategic_report :: "RawNetworkMetrics \<Rightarrow> string" where
  "strategic_report network_metrics =
     ''**STRATEGIC NETWORK INTELLIGENCE REPORT** Network operations are performing at ''
       @ fmt_f1 (network_uptime network_metrics) @ ''% efficiency with ''
       @ str_int (py_or (CRITICAL_ISSUES network_metrics) 0)
       @ '' critical incidents requiring immediate attention.''"

definition risk_recommendations :: "string list" where
  "risk_recommendations =
     ['':red_circle: Tower ID 2847: Predicted failure risk (72%) - Schedule maintenance within 48 hours'',
      '':yellow_circle: Network Sector 7: Capacity approaching threshold (89%) - Plan expansion by Q2'',
      '':green_circle: Customer Sentiment: Positive trend (+5.7%) - Continue current service strategy'',
      '':blue_circle: Revenue Impact: Infrastructure investment ROI tracking at +340% - Accelerate program'',
      '':black_circle: Compliance Check: All systems meeting regulatory standards - No action required'']"

definition executive_dashboard ::
  "world \<Rightarrow> (string \<times> kpi) list \<Rightarrow> RawNetworkMetrics \<Rightarrow> unit render" where
  "executive_dashboard w kpis network_metrics =
     run_all
       [emit (Markdown ''## :trophy: Executive Performance Dashboard''),
        create_executive_dashboard kpis,
        emit (Markdown ''---''),
        bind_render (st_columns_weights [2, 1]) (\<lambda>_.
          run_all
            [in_column 0
               (kpi_entry kpis ''Premium Performance'' (\<lambda>premium.
                  kpi_entry kpis ''Customer Satisfaction'' (\<lambda>satisfaction.
                    create_executive_summary_card ''AI-Generated Executive Summary''
                      (executive_summary_content network_metrics
                         (kpi_value premium) (kpi_value satisfaction))
                      (Some summary_metrics) '':robot:''))),
             in_column 1
               (run_all
                  [emit (Markdown ''### :zap: Executive Action Center''),
                   emit (Button '':brain: Generate AI Strategic Report''),
                   (if strategic_report_clicked w
                    then run_all
                      [fallback_create_ai_loading_spinner
                         ''AI is analyzing network data and market trends for strategic insights...'',
                       fallback_create_ai_insights_card ''Strategic Intelligence Analysis''
                         (strategic_report network_metrics) (Finite (fl (92 / 100))) '':bar_chart:'']
                    else run_all []),
                   emit (Button '':dart: Predictive Risk Assessment''),
                   (if risk_assessment_clicked w
                    then run_all
                      [fallback_create_ai_loading_spinner
                         ''Running predictive models on network infrastructure...'',
                       fallback_create_ai_recommendation_list risk_recommendations
                         '':dart: AI Risk Assessment & Recommendations'']
                    else run_all [])])])]"

definition preview_kpis :: "(string \<times> kpi) list" where
  "preview_kpis =
     [(''Network Performance'',
         \<lparr>kpi_value = ''94.2%'', kpi_trend = fl (21 / 10), kpi_icon = '':green_circle:''\<rparr>),
      (''Revenue Protection'',
         \<lparr>kpi_value = ''$2.8M'', kpi_trend = fl (57 / 10), kpi_icon = '':moneybag:''\<rparr>),
      (''AI Efficiency'',
         \<lparr>kpi_value = ''92%'', kpi_trend = fl (34 / 10), kpi_icon = '':robot:''\<rparr>),
      (''Risk Mitigation'',
         \<lparr>kpi_value = ''67%'', kpi_trend = fl (- 83 / 10), kpi_icon = '':shield:''\<rparr>)]"

definition capabilities_content :: string where
  "capabilities_content =
     ''**Your executive suite provides comprehensive network intelligence:**''"

definition exec_metrics :: "(string \<times> string) list" where
  "exec_metrics =
     [(''Models Available'', ''40+''), (''Response Time'', ''<1s''), (''Accuracy Rate'', ''92%''),
      (''Uptime SLA'', ''99.9%'')]"

definition sync_warning :: string where
  "sync_warning =
     '':warning: Network data synchronization in progress. Executive dashboard will be available momentarily.''"

definition fallback_preview :: "unit render" where
  "fallback_preview =
     run_all
       [create_executive_alert_banner sync_warning ''warning'' True,
        emit (Markdown ''### :trophy: Executive Intelligence Preview''),
        create_executive_dashboard preview_kpis,
        create_executive_summary_card ''Executive AI Intelligence Platform''
          capabilities_content (Some exec_metrics) '':trophy:'']"

definition navigation_items :: "nav_item list" where
  "navigation_items =
     [\<lparr>nav_title = ''AI Customer Intelligence'',
       nav_description = ''Advanced customer analytics with AI-powered churn prediction'',
       nav_icon = '':busts_in_silhouette:'', nav_badge = ''AI POWERED'',
       page_key = ''Customer_Profile''\<rparr>,
      \<lparr>nav_title = ''Network Performance Command'',
       nav_description = ''Comprehensive cell tower monitoring with predictive failure analysis'',
       nav_icon = '':satellite:'', nav_badge = ''REAL-TIME'',
       page_key = ''Cell_Tower_Lookup''\<rparr>,
      \<lparr>nav_title = ''Geospatial Intelligence'',
       nav_description = ''Advanced geographic analysis with AI pattern recognition'',
       nav_icon = '':world_map:'', nav_badge = ''GEO AI'',
       page_key = ''Geospatial_Analysis''\<rparr>,
      \<lparr>nav_title = ''Executive AI Dashboard'',
       nav_description = ''Real-time executive insights with automated reporting'',
       nav_icon = '':dart:'', nav_badge = ''EXECUTIVE'',
       page_key = ''AI_Insights_and_Recommendations''\<rparr>,
      \<lparr>nav_title = ''Predictive Analytics Suite'',
       nav_description = ''Machine learning models for network forecasting'',
       nav_icon = '':crystal_ball:'', nav_badge = ''PREDICTIVE'',
       page_key = ''Predictive_Analytics''\<rparr>,
      \<lparr>nav_title = ''Snowflake Intelligence'',
       nav_description = ''Natural language querying, intelligent agents, and conversational analytics'',
       nav_icon = '':brain:'', nav_badge = ''NEXT-GEN'',
       page_key = ''Snowflake_Intelligence''\<rparr>]"

definition page_tail :: "unit render" where
  "page_tail =
     run_all
       [emit (Markdown ''---''),
        emit (Markdown ''## :rocket: Executive Intelligence Platform''),
        create_executive_navigation_grid navigation_items,
        emit (Markdown ''---''),
        emit (Markdown ''## :zap: Technology Excellence Platform''),
        bind_render (st_columns 3) (\<lambda>_.
          run_all [in_column 0 (emit (Panel ''Snowflake Cortex AISQL'')),
                   in_column 1 (emit (Panel ''AI Analytics Engine'')),
                   in_column 2 (emit (Panel ''Executive Intelligence''))]),
        emit (Markdown ''---''),
        emit (Markdown ''## :bar_chart: Executive Success Metrics''),
        bind_render (st_columns 4) (\<lambda>_.
          run_all [in_column 0 (emit (Panel ''340% ROI Achieved'')),
                   in_column 1 (emit (Panel ''67% MTTR Reduction'')),
                   in_column 2 (emit (Panel ''92% Prediction Accuracy'')),
                   in_column 3 (emit (Panel ''$2.8M Revenue Protected''))]),
        add_page_footer,
        emit (Markdown ''---''),
        emit (Panel ''Executive Support & Consultation'')]"

definition dashboard_or_preview :: "world \<Rightarrow> load_result \<Rightarrow> unit render" where
  "dashboard_or_preview w r =
     (if dashboard_available r
      then (case r of
              (Some kpis, Some network_metrics, _) \<Rightarrow> executive_dashboard w kpis network_metrics
            | _ \<Rightarrow> fallback_preview)
      else fallback_preview)"

text \<open>
  One run of the script, top to bottom, and the state it leaves. The two AI objects
  the script makes after the header are never used and write nothing.
\<close>

definition main_page :: "world \<Rightarrow> app_state \<Rightarrow> unit render \<times> app_state" where
  "main_page w s =
     (let session = get_snowflake_session w s;
          loaded = load_executive_dashboard_data w (snd session)
      in (run_all
            [inject_custom_css,
             create_sidebar_navigation,
             discard (fst session),
             create_page_header ''Executive Telco Network Intelligence Suite''
               ''AI-Powered Network Operations Command Center''
               '':trophy:'',
             demo_alert create_executive_demo_controller,
             bind_render (fst loaded) (dashboard_or_preview w),
             page_tail],
          case snd (fst session) of Inl _ \<Rightarrow> snd session | Inr _ \<Rightarrow> snd loaded))"

section \<open>Example inputs\<close>

text \<open>A row with five premium rows and no distinct tower, and the row of the specification's example.\<close>

definition net_5_of_0 :: RawNetworkMetrics where
  "net_5_of_0 = \<lparr>TOTAL_TOWERS = Some 0, AVG_SUCCESS_RATE = None, CRITICAL_ISSUES = None,
     AVG_DL_UTILIZATION = None, TOTAL_THROUGHPUT = None, PREMIUM_TOWERS = Some 5\<rparr>"

definition net_950_of_1000 :: RawNetworkMetrics where
  "net_950_of_1000 = \<lparr>TOTAL_TOWERS = Some 1000, AVG_SUCCESS_RATE = Some (fl (95 / 100)),
     CRITICAL_ISSUES = Some 3, AVG_DL_UTILIZATION = None, TOTAL_THROUGHPUT = None,
     PREMIUM_TOWERS = Some 950\<rparr>"

text \<open>A customer row, the state of a fresh process, and four situations a run can meet.\<close>

definition cust_example :: RawCustomerMetrics where
  "cust_example = \<lparr>TOTAL_TICKETS = Some 120, AVG_SENTIMENT = Some (fl (2 / 10)),
     CRITICAL_TICKETS = Some 4, UNIQUE_CUSTOMERS = Some 80, SATISFIED_CUSTOMERS = Some 50\<rparr>"

definition empty_state :: app_state where
  "empty_state = \<lparr>session_resource = None, data_slot = None\<rparr>"

definition world_no_session :: world where
  "world_no_session = \<lparr>active_session = Inl ''no active session'',
     network_rows = Inr [net_950_of_1000], customer_rows = Inr [cust_example],
     strategic_report_clicked = False, risk_assessment_clicked = False, clock = 0\<rparr>"

definition world_no_rows :: world where
  "world_no_rows = \<lparr>active_session = Inr ActiveSession,
     network_rows = Inr [], customer_rows = Inr [cust_example],
     strategic_report_clicked = False, risk_assessment_clicked = False, clock = 0\<rparr>"

definition world_query_fails :: world where
  "world_query_fails = \<lparr>active_session = Inr ActiveSession,
     network_rows = Inl ''SQL execution error'', customer_rows = Inr [cust_example],
     strategic_report_clicked = False, risk_assessment_clicked = False, clock = 0\<rparr>"

definition world_recovered :: world where
  "world_recovered = \<lparr>active_session = Inr ActiveSession,
     network_rows = Inr [net_950_of_1000], customer_rows = Inr [cust_example],
     strategic_report_clicked = False, risk_assessment_clicked = False, clock = 10\<rparr>"

section \<open>Properties of the number model\<close>

lemma bitlen_powi_bounds:
  assumes "0 < a"
  shows "2 powi (bitlen a - 1) \<le> (of_int a :: rat)" and "(of_int a :: rat) < 2 powi (bitlen a)"
proof -
  have pos: "1 \<le> bitlen a"
    using assms bitlen_eq_zero_iff [of a] bitlen_nonneg [of a] by linarith
  have lo: "2 ^ nat (bitlen a - 1) \<le> a" and hi: "a < 2 ^ nat (bitlen a)"
    using bitlen_bounds [OF assms] by simp_all
  have "(of_int (2 ^ nat (bitlen a - 1)) :: rat) \<le> of_int a"
    using lo by (simp only: of_int_le_iff)
  then show "2 powi (bitlen a - 1) \<le> (of_int a :: rat)"
    using pos by (simp add: power_int_def)
  have "(of_int a :: rat) < of_int (2 ^ nat (bitlen a))"
    using hi by (simp only: of_int_less_iff)
  then show "(of_int a :: rat) < 2 powi (bitlen a)"
    using pos by (simp add: power_int_def)
qed

lemma pow2_pos: "(0::rat) < 2 powi k"
  by (simp add: zero_less_power_int)

lemma ilog2_range:
  assumes "0 < q"
  shows "2 powi (ilog2 q) \<le> q \<and> q < 2 powi (ilog2 q + 1)"
proof -
  obtain a b where ab: "quotient_of q = (a, b)" by force
  have b: "0 < b" using quotient_of_denom_pos [OF ab] .
  have q: "q = of_int a / of_int b" using quotient_of_div [OF ab] .
  have a: "0 < a" using assms b q by (simp add: zero_less_divide_iff)
  define d where "d = bitlen a - bitlen b"
  have bpos: "(0::rat) < of_int b" using b by simp
  have "q < 2 powi (bitlen a) / of_int b"
    unfolding q using bitlen_powi_bounds(2) [OF a] bpos by (simp add: divide_strict_right_mono)
  also have "\<dots> \<le> 2 powi (bitlen a) / 2 powi (bitlen b - 1)"
    by (rule divide_left_mono
          [OF bitlen_powi_bounds(1) [OF b] less_imp_le [OF pow2_pos] mult_pos_pos [OF bpos pow2_pos]])
  also have "\<dots> = 2 powi (d + 1)"
    by (simp add: d_def power_int_diff [symmetric] algebra_simps)
  finally have hi: "q < 2 powi (d + 1)" .
  have "(2::rat) powi (d - 1) = 2 powi ((bitlen a - 1) - bitlen b)"
    by (simp add: d_def algebra_simps)
  also have "\<dots> = 2 powi (bitlen a - 1) / 2 powi (bitlen b)"
    by (rule power_int_diff) simp
  also have "\<dots> \<le> of_int a / 2 powi (bitlen b)"
    using bitlen_powi_bounds(1) [OF a] by (simp add: divide_right_mono)
  also have "\<dots> \<le> of_int a / of_int b"
  proof (rule divide_left_mono)
    show "(of_int b :: rat) \<le> 2 powi bitlen b"
      using bitlen_powi_bounds(2) [OF b] by simp
    show "(0::rat) \<le> of_int a" using a by simp
    show "(0::rat) < 2 powi bitlen b * of_int b"
      by (rule mult_pos_pos [OF pow2_pos bpos])
  qed
  finally have lo: "2 powi (d - 1) \<le> q" unfolding q .
  have e: "ilog2 q = (if 2 powi d \<le> q then d else d - 1)"
    by (simp add: ilog2_def ab d_def Let_def)
  show ?thesis
  proof (cases "2 powi d \<le> q")
    case True
    then show ?thesis using hi e by simp
  next
    case False
    then show ?thesis using lo e by simp
  qed
qed

lemma round_half_even_of_int: "round_half_even (of_int n) = n"
  by (simp add: round_half_even_def)

lemma round_half_even_bounds:
  "\<lfloor>x\<rfloor> \<le> round_half_even x \<and> round_half_even x \<le> \<lfloor>x\<rfloor> + 1"
  by (simp add: round_half_even_def Let_def)

lemma round_half_even_mono:
  assumes "x \<le> y"
  shows "round_half_even x \<le> round_half_even y"
proof (cases "\<lfloor>x\<rfloor> = \<lfloor>y\<rfloor>")
  case True
  have "x - of_int \<lfloor>y\<rfloor> \<le> y - of_int \<lfloor>y\<rfloor>" using assms by simp
  then show ?thesis
    by (simp add: round_half_even_def Let_def True)
next
  case False
  have "\<lfloor>x\<rfloor> \<le> \<lfloor>y\<rfloor>" using assms by (rule floor_mono)
  then have "\<lfloor>x\<rfloor> + 1 \<le> \<lfloor>y\<rfloor>" using False by simp
  then show ?thesis
    using round_half_even_bounds [of x] round_half_even_bounds [of y] by linarith
qed

lemma fl_pos_eq:
  assumes "0 < q"
  shows "fl q = of_int (round_half_even (q / 2 powi (ilog2 q - 52))) * 2 powi (ilog2 q - 52)"
  using assms by (simp add: fl_def Let_def)

text \<open>Rounding keeps a positive number inside its binade.\<close>

lemma fl_pos_range:
  assumes "0 < q"
  shows "2 powi (ilog2 q) \<le> fl q \<and> fl q \<le> 2 powi (ilog2 q + 1)"
proof -
  define e where "e = ilog2 q"
  define u :: rat where "u = 2 powi (e - 52)"
  have u: "0 < u" unfolding u_def by (rule pow2_pos)
  have r: "2 powi e \<le> q" "q < 2 powi (e + 1)"
    using ilog2_range [OF assms] by (simp_all add: e_def)
  have e1: "(2::rat) powi e = 2 ^ 52 * u"
    unfolding u_def by (simp add: power_int_diff)
  have e2: "(2::rat) powi (e + 1) = 2 ^ 53 * u"
    unfolding u_def by (simp add: power_int_diff power_int_add)
  have "of_int (2 ^ 52) \<le> q / u"
    using r(1) u by (simp add: e1 pos_le_divide_eq)
  then have "round_half_even (of_int (2 ^ 52)) \<le> round_half_even (q / u)"
    by (rule round_half_even_mono)
  then have lo: "2 ^ 52 \<le> round_half_even (q / u)"
    by (simp only: round_half_even_of_int)
  have "q / u \<le> of_int (2 ^ 53)"
    using r(2) u by (simp add: e2 pos_divide_le_eq)
  then have "round_half_even (q / u) \<le> round_half_even (of_int (2 ^ 53))"
    by (rule round_half_even_mono)
  then have hi: "round_half_even (q / u) \<le> 2 ^ 53"
    by (simp only: round_half_even_of_int)
  have f: "fl q = of_int (round_half_even (q / u)) * u"
    using fl_pos_eq [OF assms] by (simp add: u_def e_def)
  have "(2 ^ 52 :: rat) \<le> of_int (round_half_even (q / u))"
    using lo by (metis of_int_le_iff of_int_numeral of_int_power)
  then have a: "2 ^ 52 * u \<le> fl q"
    unfolding f using u by (simp add: mult_right_mono)
  have "(of_int (round_half_even (q / u)) :: rat) \<le> 2 ^ 53"
    using hi by (metis of_int_le_iff of_int_numeral of_int_power)
  then have b: "fl q \<le> 2 ^ 53 * u"
    unfolding f using u by (simp add: mult_right_mono)
  show ?thesis using a b by (simp add: e1 e2 e_def [symmetric])
qed

lemma ilog2_mono:
  assumes "0 < q" "q \<le> r"
  shows "ilog2 q \<le> ilog2 r"
proof (rule ccontr)
  assume "\<not> ilog2 q \<le> ilog2 r"
  then have "ilog2 r + 1 \<le> ilog2 q" by simp
  then have "(2::rat) powi (ilog2 r + 1) \<le> 2 powi (ilog2 q)"
    by (intro power_int_increasing) simp_all
  moreover have "r < 2 powi (ilog2 r + 1)"
    using ilog2_range [of r] assms by simp
  moreover have "2 powi (ilog2 q) \<le> q"
    using ilog2_range [OF assms(1)] by simp
  ultimately show False using assms(2) by linarith
qed

lemma fl_mono_pos:
  assumes "0 < q" "q \<le> r"
  shows "fl q \<le> fl r"
proof (cases "ilog2 q = ilog2 r")
  case True
  have rpos: "0 < r" using assms by simp
  define u :: rat where "u = 2 powi (ilog2 r - 52)"
  have u: "0 < u" unfolding u_def by (rule pow2_pos)
  have "q / u \<le> r / u" using assms(2) u by (simp add: divide_right_mono)
  then have "round_half_even (q / u) \<le> round_half_even (r / u)"
    by (rule round_half_even_mono)
  then have "(of_int (round_half_even (q / u)) :: rat) * u \<le> of_int (round_half_even (r / u)) * u"
    using u by (simp add: mult_right_mono)
  then show ?thesis
    by (simp add: fl_pos_eq [OF assms(1)] fl_pos_eq [OF rpos] True u_def)
next
  case False
  have rpos: "0 < r" using assms by simp
  have "ilog2 q + 1 \<le> ilog2 r"
    using ilog2_mono [OF assms] False by simp
  then have "(2::rat) powi (ilog2 q + 1) \<le> 2 powi (ilog2 r)"
    by (intro power_int_increasing) simp_all
  then show ?thesis
    using fl_pos_range [OF assms(1)] fl_pos_range [OF rpos] by linarith
qed

lemma fl_zero: "fl 0 = 0"
  by (simp add: fl_def)

lemma fl_pos: "0 < q \<Longrightarrow> 0 < fl q"
  using fl_pos_range [of q] pow2_pos [of "ilog2 q"] by linarith

text \<open>Rounding to nearest is monotone on the non-negative numbers.\<close>

lemma fl_mono:
  assumes "0 \<le> q" "q \<le> r"
  shows "fl q \<le> fl r"
proof (cases "q = 0")
  case True
  show ?thesis
  proof (cases "r = 0")
    case True
    then show ?thesis using \<open>q = 0\<close> by simp
  next
    case False
    then have "0 < r" using assms by simp
    then show ?thesis using fl_pos [of r] True by (simp add: fl_zero)
  qed
next
  case False
  then have "0 < q" using assms(1) by simp
  then show ?thesis using assms(2) by (rule fl_mono_pos)
qed

text \<open>Small integers are floats: rounding leaves them alone.\<close>

lemma fl_1: "fl 1 = 1"
  by code_simp

lemma fl_2: "fl 2 = 2"
  by code_simp

lemma fl_50: "fl 50 = 50"
  by code_simp

lemma fl_100: "fl 100 = 100"
  by code_simp

lemma fl_nonneg: "0 \<le> q \<Longrightarrow> 0 \<le> fl q"
  using fl_mono [of 0 q] by (simp add: fl_zero)

lemma fl_5: "fl 5 = 5"
  by code_simp

lemma fl_500: "fl 500 = 500"
  by code_simp

text \<open>The float literals \<open>0.8\<close> and \<open>0.6\<close> (the simplifier writes 8/10 as 4/5).\<close>

lemma fl_08: "fl (4 / 5) = 3602879701896397 / 4503599627370496"
  by code_simp

lemma fl_06: "fl (3 / 5) = 5404319552844595 / 9007199254740992"
  by code_simp

text \<open>The largest float below 1, and its product with 100.\<close>

lemma fl_below_one: "fl (1 - 1 / 2 ^ 53) = 1 - 1 / 2 ^ 53"
  by code_simp

lemma fl_below_hundred: "fl ((1 - 1 / 2 ^ 53) * 100) < 100"
  by code_simp

section \<open>KPI derivation\<close>

lemma py_or_0: "py_or x 0 = nz x"
  by (simp add: py_or_def nz_def split: option.splits)

lemma max_py_or_1: "max (py_or x (1::int)) 1 = max (nz x) 1"
  by (simp add: py_or_def nz_def split: option.splits)

lemma fmt_f1_0: "fmt_f1 0 = ''0.0''"
  by (simp add: fmt_f1_def round_half_even_def digits.simps)

lemma fmt_f1_50: "fmt_f1 50 = ''50.0''"
  by (simp add: fmt_f1_def round_half_even_def digits.simps)

lemma fmt_f1_100: "fmt_f1 100 = ''100.0''"
  by (simp add: fmt_f1_def round_half_even_def digits.simps)

text \<open>
  Claim C7. The Customer Satisfaction KPI, (average sentiment + 1) * 50 formatted to one
  decimal with a percent sign, is 0.0% at sentiment -1, 50.0% at sentiment 0 and 100.0%
  at sentiment 1.
\<close>

theorem customer_satisfaction_endpoints:
  "map_option kpi_value (map_of (exec_kpis net (cust\<lparr>AVG_SENTIMENT := Some (- 1)\<rparr>)) ''Customer Satisfaction'') = Some ''0.0%''
  \<and> map_option kpi_value (map_of (exec_kpis net (cust\<lparr>AVG_SENTIMENT := Some 0\<rparr>)) ''Customer Satisfaction'') = Some ''50.0%''
  \<and> map_option kpi_value (map_of (exec_kpis net (cust\<lparr>AVG_SENTIMENT := Some 1\<rparr>)) ''Customer Satisfaction'') = Some ''100.0%''
  \<and> customer_satisfaction (cust\<lparr>AVG_SENTIMENT := Some (- 1)\<rparr>) = 0
  \<and> customer_satisfaction (cust\<lparr>AVG_SENTIMENT := Some 0\<rparr>) = 50
  \<and> customer_satisfaction (cust\<lparr>AVG_SENTIMENT := Some 1\<rparr>) = 100"
  by (simp add: exec_kpis_def customer_satisfaction_def py_or_def fl_zero fl_1 fl_2 fl_50 fl_100
        fmt_f1_0 fmt_f1_50 fmt_f1_100)

text \<open>
  Claim C2. Whatever columns of the two rows are null, each KPI is its formula applied
  to the row with 0 in place of every null, and the derivation does not raise: on two
  rows \<open>load_executive_dashboard_data\<close> returns the KPIs and the rows. A null
  \<open>AVG_SUCCESS_RATE\<close> gives Network Uptime 0.0%, a null \<open>TOTAL_TOWERS\<close> gives Active
  Infrastructure 0.
\<close>

theorem kpi_nulls_as_zero:
  "network_uptime net = fl (nz (AVG_SUCCESS_RATE net) * 100)
   \<and> customer_satisfaction cust = fl (fl (nz (AVG_SENTIMENT cust) + 1) * 50)
   \<and> premium_performance net =
       fl (fl (of_int (nz (PREMIUM_TOWERS net)) / of_int (max (nz (TOTAL_TOWERS net)) 1)) * 100)
   \<and> map (\<lambda>(name, k). (name, kpi_value k)) (exec_kpis net cust) =
       [(''Network Uptime'', fmt_f1 (fl (nz (AVG_SUCCESS_RATE net) * 100)) @ ''%''),
        (''Active Infrastructure'', fmt_comma (nz (TOTAL_TOWERS net))),
        (''Customer Satisfaction'', fmt_f1 (fl (fl (nz (AVG_SENTIMENT cust) + 1) * 50)) @ ''%''),
        (''Revenue Protection'', ''$2.8M''),
        (''Risk Incidents'', str_int (nz (CRITICAL_ISSUES net))),
        (''Premium Performance'',
           fmt_f0 (fl (fl (of_int (nz (PREMIUM_TOWERS net))
                           / of_int (max (nz (TOTAL_TOWERS net)) 1)) * 100)) @ ''%'')]
   \<and> load_executive_dashboard_data_body
         (w\<lparr>network_rows := Inr (net # more_net), customer_rows := Inr (cust # more_cust)\<rparr>) =
       ([], Inr (Some (exec_kpis net cust), Some net, Some cust))
   \<and> map_option kpi_value
         (map_of (exec_kpis (net\<lparr>AVG_SUCCESS_RATE := None\<rparr>) cust) ''Network Uptime'') = Some ''0.0%''
   \<and> map_option kpi_value
         (map_of (exec_kpis (net\<lparr>TOTAL_TOWERS := None\<rparr>) cust) ''Active Infrastructure'') = Some ''0''"
proof -
  have a: "network_uptime net = fl (nz (AVG_SUCCESS_RATE net) * 100)"
    by (simp add: network_uptime_def py_or_0)
  have b: "customer_satisfaction cust = fl (fl (nz (AVG_SENTIMENT cust) + 1) * 50)"
    by (simp add: customer_satisfaction_def py_or_0)
  have c: "premium_performance net =
       fl (fl (of_int (nz (PREMIUM_TOWERS net)) / of_int (max (nz (TOTAL_TOWERS net)) 1)) * 100)"
    by (simp only: premium_performance_def py_or_0 max_py_or_1)
  have d: "map (\<lambda>(name, k). (name, kpi_value k)) (exec_kpis net cust) =
       [(''Network Uptime'', fmt_f1 (network_uptime net) @ ''%''),
        (''Active Infrastructure'', fmt_comma (nz (TOTAL_TOWERS net))),
        (''Customer Satisfaction'', fmt_f1 (customer_satisfaction cust) @ ''%''),
        (''Revenue Protection'', ''$2.8M''),
        (''Risk Incidents'', str_int (nz (CRITICAL_ISSUES net))),
        (''Premium Performance'', fmt_f0 (premium_performance net) @ ''%'')]"
    by (simp add: exec_kpis_def py_or_0)
  have e: "load_executive_dashboard_data_body
         (w\<lparr>network_rows := Inr (net # more_net), customer_rows := Inr (cust # more_cust)\<rparr>) =
       ([], Inr (Some (exec_kpis net cust), Some net, Some cust))"
    by (simp add: load_executive_dashboard_data_body_def)
  have f: "map_option kpi_value
         (map_of (exec_kpis (net\<lparr>AVG_SUCCESS_RATE := None\<rparr>) cust) ''Network Uptime'') = Some ''0.0%''"
    by (simp add: exec_kpis_def network_uptime_def py_or_def fl_zero fmt_f1_0)
  have g: "map_option kpi_value
         (map_of (exec_kpis (net\<lparr>TOTAL_TOWERS := None\<rparr>) cust) ''Active Infrastructure'') = Some ''0''"
    by (simp add: exec_kpis_def py_or_def fmt_comma_def digits.simps group3.simps)
  show ?thesis
    using a b c d e f g by (simp only: simp_thms)
qed

text \<open>
  Claim C3, as stated: for all non-negative premium and total tower counts the Premium
  Performance percentage lies between 0 and 100. It fails: five premium rows over no
  distinct tower give 500.
\<close>

theorem premium_performance_counterexample:
  "\<not> (0 \<le> round_half_even (premium_performance net_5_of_0)
       \<and> round_half_even (premium_performance net_5_of_0) \<le> 100)"
  by (simp add: premium_performance_def net_5_of_0_def py_or_def fl_5 fl_500 round_half_even_def)

text \<open>
  Claim C3, amended: when the premium count (a null read as 0) is non-negative and at
  most max(total, 1), the Premium Performance number and the integer percent shown lie
  between 0 and 100.
\<close>

theorem premium_performance_bounded:
  assumes "0 \<le> nz (PREMIUM_TOWERS net)"
    and "nz (PREMIUM_TOWERS net) \<le> max (nz (TOTAL_TOWERS net)) 1"
  shows "0 \<le> premium_performance net \<and> premium_performance net \<le> 100
    \<and> 0 \<le> round_half_even (premium_performance net)
    \<and> round_half_even (premium_performance net) \<le> 100
    \<and> fmt_f0 (premium_performance net) = digits (nat (round_half_even (premium_performance net)))"
proof -
  define p where "p = nz (PREMIUM_TOWERS net)"
  define m where "m = max (nz (TOTAL_TOWERS net)) 1"
  define q :: rat where "q = of_int p / of_int m"
  have m: "1 \<le> m" by (simp add: m_def)
  have pp: "premium_performance net = fl (fl q * 100)"
    by (simp add: premium_performance_def q_def p_def m_def py_or_def nz_def max_def
          split: option.splits)
  have q0: "0 \<le> q" using assms(1) m by (simp add: q_def p_def [symmetric])
  have "of_int p \<le> (of_int m :: rat)" using assms(2) by (simp add: p_def m_def)
  then have q1: "q \<le> 1" using m by (simp add: q_def divide_le_eq_1)
  have f0: "0 \<le> fl q" using q0 by (rule fl_nonneg)
  have f1: "fl q \<le> 1" using fl_mono [OF q0 q1] by (simp add: fl_1)
  have a: "0 \<le> fl (fl q * 100)" using f0 by (intro fl_nonneg) simp
  have "fl (fl q * 100) \<le> fl 100"
    using f0 f1 by (intro fl_mono) simp_all
  then have b: "fl (fl q * 100) \<le> 100" by (simp add: fl_100)
  have c: "0 \<le> round_half_even (fl (fl q * 100))"
    using round_half_even_mono [OF a] by (simp add: round_half_even_def)
  have d: "round_half_even (fl (fl q * 100)) \<le> 100"
    using round_half_even_mono [OF b] round_half_even_of_int [of 100] by simp
  have e: "fmt_f0 (fl (fl q * 100)) = digits (nat (round_half_even (fl (fl q * 100))))"
    using a by (simp add: fmt_f0_def)
  show ?thesis using a b c d e by (simp add: pp)
qed

theorem premium_performance_bounded_witness:
  "0 \<le> premium_performance net_950_of_1000 \<and> premium_performance net_950_of_1000 \<le> 100
    \<and> 0 \<le> round_half_even (premium_performance net_950_of_1000)
    \<and> round_half_even (premium_performance net_950_of_1000) \<le> 100"
  using premium_performance_bounded [of net_950_of_1000]
  by (simp add: net_950_of_1000_def nz_def)

section \<open>Presentation components\<close>

text \<open>
  Claim C9. The confidence badge of \<open>create_ai_insights_card\<close> reads High exactly when
  confidence > 0.8, Medium exactly when 0.6 < confidence and confidence <= 0.8, and Low
  otherwise; confidence 0.8 reads Medium and the default 0.0 reads Low.
\<close>

theorem confidence_badge_label:
  "(confidence_text confidence = ''High'' \<longleftrightarrow> py_gt confidence (fl (8 / 10)))
   \<and> (confidence_text confidence = ''Medium'' \<longleftrightarrow>
        py_gt confidence (fl (6 / 10)) \<and> py_le confidence (fl (8 / 10)))
   \<and> (confidence_text confidence = ''Low'' \<longleftrightarrow>
        \<not> py_gt confidence (fl (8 / 10))
        \<and> \<not> (py_gt confidence (fl (6 / 10)) \<and> py_le confidence (fl (8 / 10))))
   \<and> confidence_text (Finite (fl (8 / 10))) = ''Medium''
   \<and> confidence_text (Finite 0) = ''Low''
   \<and> ds_create_ai_insights_card title insight confidence icon =
       ([InsightsCard icon title (confidence_color confidence)
           (confidence_text confidence @ '' Confidence'') insight], Inr ())"
proof (cases confidence)
  case (Finite x)
  then show ?thesis
    by (auto simp add: confidence_text_def ds_create_ai_insights_card_def emit_def fl_08 fl_06)
next
  case PosInf
  then show ?thesis
    by (auto simp add: confidence_text_def ds_create_ai_insights_card_def emit_def fl_08 fl_06)
next
  case NegInf
  then show ?thesis
    by (auto simp add: confidence_text_def ds_create_ai_insights_card_def emit_def fl_08 fl_06)
next
  case NaN
  then show ?thesis
    by (auto simp add: confidence_text_def ds_create_ai_insights_card_def emit_def fl_08 fl_06)
qed

text \<open>
  Claim C10, as stated: for all 1 <= current_step <= total_steps the width of the
  progress bar is below 100. It fails at current_step = total_steps = 2^54, where the
  quotient rounds to the float 1.
\<close>

theorem progress_width_counterexample:
  "\<not> progress_width 18014398509481984 18014398509481984 < 100"
proof -
  have "fl ((18014398509481984 - 1) / 18014398509481984) = 1" by code_simp
  then show ?thesis by (simp add: progress_width_def fl_100)
qed

text \<open>
  Claim C10, amended: for 1 <= current_step <= total_steps <= 2^53 the tracker renders
  the width ((current_step - 1) / total_steps) * 100, which is below 100 also on the
  last step; with total_steps = 0 the division raises ZeroDivisionError.
\<close>

theorem progress_width_below_100:
  assumes "1 \<le> current_step" and "current_step \<le> total_steps" and "total_steps \<le> 2 ^ 53"
  shows "create_ai_progress_tracker current_step total_steps step_name =
           ([ProgressTracker current_step total_steps
               (fl (fl (of_int (current_step - 1) / of_int total_steps) * 100)) step_name], Inr ())
    \<and> 0 \<le> progress_width current_step total_steps
    \<and> progress_width current_step total_steps < 100
    \<and> create_ai_progress_tracker any_step 0 step_name = ([], Inl (Raised ZeroDivisionError))"
proof -
  define q :: rat where "q = of_int (current_step - 1) / of_int total_steps"
  have t: "0 < total_steps" using assms by simp
  have tr: "(0::rat) < of_int total_steps" using t by simp
  have q0: "0 \<le> q" using assms(1) t by (simp add: q_def)
  have "q \<le> of_int (total_steps - 1) / of_int total_steps"
    unfolding q_def using assms(2) tr by (intro divide_right_mono) simp_all
  also have "\<dots> = 1 - 1 / of_int total_steps"
    using t by (simp add: field_simps)
  finally have "q \<le> 1 - 1 / of_int total_steps" .
  moreover have "1 / (2 ^ 53 :: rat) \<le> 1 / of_int total_steps"
  proof (rule divide_left_mono)
    have "(of_int total_steps :: rat) \<le> of_int (2 ^ 53)"
      using assms(3) by (simp only: of_int_le_iff)
    then show "(of_int total_steps :: rat) \<le> 2 ^ 53" by simp
    show "(0::rat) \<le> 1" by simp
    show "(0::rat) < 2 ^ 53 * of_int total_steps" using tr by simp
  qed
  ultimately have q1: "q \<le> 1 - 1 / 2 ^ 53" by simp
  have f0: "0 \<le> fl q" using q0 by (rule fl_nonneg)
  have f1: "fl q \<le> 1 - 1 / 2 ^ 53"
    using fl_mono [OF q0 q1] by (simp only: fl_below_one)
  have w0: "0 \<le> fl (fl q * 100)" using f0 by (intro fl_nonneg) simp
  have "fl (fl q * 100) \<le> fl ((1 - 1 / 2 ^ 53) * 100)"
    using f0 f1 by (intro fl_mono) simp_all
  then have w1: "fl (fl q * 100) < 100" using fl_below_hundred by linarith
  have pw: "progress_width current_step total_steps = fl (fl q * 100)"
    by (simp add: progress_width_def q_def)
  have r: "create_ai_progress_tracker current_step total_steps step_name =
           ([ProgressTracker current_step total_steps (fl (fl q * 100)) step_name], Inr ())"
    using t by (simp add: create_ai_progress_tracker_def pw emit_def)
  have z: "create_ai_progress_tracker any_step 0 step_name = ([], Inl (Raised ZeroDivisionError))"
    by (simp add: create_ai_progress_tracker_def py_raise_def)
  show ?thesis using r w0 w1 z by (simp add: pw q_def)
qed

theorem progress_width_below_100_witness:
  "create_ai_progress_tracker 4 4 ''Scoring'' = ([ProgressTracker 4 4 75 ''Scoring''], Inr ())
   \<and> progress_width 4 4 < 100"
proof -
  have "fl (fl (3 / 4) * 100) = 75" by code_simp
  then show ?thesis
    using progress_width_below_100 [of 4 4 "''Scoring''" 0] by simp
qed

text \<open>
  Claim C6. On an empty metrics mapping main.py's fallback \<open>create_ai_metrics_dashboard\<close>
  and \<open>create_executive_dashboard\<close> ask for zero columns and raise, where the library's
  \<open>create_ai_metrics_dashboard\<close> returns without rendering; the recommendation lists and
  the summary card render no item on an empty collection.
\<close>

theorem fallback_dashboards_raise_on_empty:
  "fallback_create_ai_metrics_dashboard [] = ([], Inl (Raised StreamlitAPIException))
   \<and> create_executive_dashboard [] = ([], Inl (Raised StreamlitAPIException))
   \<and> ds_create_ai_metrics_dashboard [] = ([], Inr ())
   \<and> ds_create_ai_recommendation_list [] title = ([], Inr ())
   \<and> fallback_create_ai_recommendation_list [] title = ([Markdown (''### '' @ title)], Inr ())
   \<and> create_executive_summary_card title content (Some []) icon =
        ([Markdown (''### '' @ icon @ '' '' @ title), Markdown content], Inr ())
   \<and> create_executive_summary_card title content None icon =
        ([Markdown (''### '' @ icon @ '' '' @ title), Markdown content], Inr ())"
  by (simp add: fallback_create_ai_metrics_dashboard_def create_executive_dashboard_def
        ds_create_ai_metrics_dashboard_def ds_create_ai_recommendation_list_def
        fallback_create_ai_recommendation_list_def create_executive_summary_card_def
        st_columns_def py_raise_def bind_render_def emit_def)

section \<open>The page\<close>

lemma bind_render_Inr: "snd m = Inr a \<Longrightarrow> bind_render m f = (fst m @ fst (f a), snd (f a))"
  by (simp add: bind_render_def)

lemma bind_render_Inl: "snd m = Inl sg \<Longrightarrow> bind_render m f = (fst m, Inl sg)"
  by (simp add: bind_render_def)

lemma fallback_preview_eq:
  "fallback_preview =
     ([Warning sync_warning,
       Markdown ''### :trophy: Executive Intelligence Preview'',
       Columns 4,
       InColumn 0 (Metric ''Network Performance'' ''94.2%''),
       InColumn 1 (Metric ''Revenue Protection'' ''$2.8M''),
       InColumn 2 (Metric ''AI Efficiency'' ''92%''),
       InColumn 3 (Metric ''Risk Mitigation'' ''67%''),
       Markdown ''### :trophy: Executive AI Intelligence Platform'',
       Markdown capabilities_content,
       Columns 4,
       InColumn 0 (Metric ''Models Available'' ''40+''),
       InColumn 1 (Metric ''Response Time'' ''<1s''),
       InColumn 2 (Metric ''Accuracy Rate'' ''92%''),
       InColumn 3 (Metric ''Uptime SLA'' ''99.9%'')], Inr ())"
  by (simp add: fallback_preview_def create_executive_alert_banner_def
        create_executive_dashboard_def create_executive_summary_card_def preview_kpis_def
        exec_metrics_def st_columns_def bind_render_def emit_def in_column_def
        enumerate_eq_zip upt_rec)


lemma page_tail_eq:
  "page_tail =
     ([Markdown ''---'',
       Markdown ''## :rocket: Executive Intelligence Platform'',
       Columns 3,
       InColumn 0 (Markdown ''### :busts_in_silhouette: AI Customer Intelligence''),
       InColumn 0 (Markdown ''Advanced customer analytics with AI-powered churn prediction''),
       InColumn 0 (Info ''AI POWERED''),
       InColumn 1 (Markdown ''### :satellite: Network Performance Command''),
       InColumn 1 (Markdown ''Comprehensive cell tower monitoring with predictive failure analysis''),
       InColumn 1 (Info ''REAL-TIME''),
       InColumn 2 (Markdown ''### :world_map: Geospatial Intelligence''),
       InColumn 2 (Markdown ''Advanced geographic analysis with AI pattern recognition''),
       InColumn 2 (Info ''GEO AI''),
       InColumn 0 (Markdown ''### :dart: Executive AI Dashboard''),
       InColumn 0 (Markdown ''Real-time executive insights with automated reporting''),
       InColumn 0 (Info ''EXECUTIVE''),
       InColumn 1 (Markdown ''### :crystal_ball: Predictive Analytics Suite''),
       InColumn 1 (Markdown ''Machine learning models for network forecasting''),
       InColumn 1 (Info ''PREDICTIVE''),
       InColumn 2 (Markdown ''### :brain: Snowflake Intelligence''),
       InColumn 2 (Markdown ''Natural language querying, intelligent agents, and conversational analytics''),
       InColumn 2 (Info ''NEXT-GEN''),
       Markdown ''---'',
       Markdown ''## :zap: Technology Excellence Platform'',
       Columns 3,
       InColumn 0 (Panel ''Snowflake Cortex AISQL''),
       InColumn 1 (Panel ''AI Analytics Engine''),
       InColumn 2 (Panel ''Executive Intelligence''),
       Markdown ''---'',
       Markdown ''## :bar_chart: Executive Success Metrics'',
       Columns 4,
       InColumn 0 (Panel ''340% ROI Achieved''),
       InColumn 1 (Panel ''67% MTTR Reduction''),
       InColumn 2 (Panel ''92% Prediction Accuracy''),
       InColumn 3 (Panel ''$2.8M Revenue Protected''),
       Markdown ''<br><br>'',
       Markdown ''---'',
       PageFooter,
       Markdown ''---'',
       Panel ''Executive Support & Consultation''], Inr ())"
  by (simp add: page_tail_def create_executive_navigation_grid_def navigation_items_def
        add_page_footer_def st_columns_def bind_render_def emit_def in_column_def
        enumerate_eq_zip upt_rec)

lemma load_body_unavailable:
  assumes "isl (network_rows w) \<or> network_rows w = Inr [] \<or> isl (customer_rows w)
           \<or> customer_rows w = Inr []"
  shows "snd (load_executive_dashboard_data_body w) = Inr (None, None, None)"
  using assms
  by (auto simp add: load_executive_dashboard_data_body_def load_failed_def bind_render_def
        emit_def isl_def split: sum.splits list.splits)

lemma load_body_elements:
  "fst (load_executive_dashboard_data_body w) = []
   \<or> (\<exists>e. fst (load_executive_dashboard_data_body w) =
          [Error (''Error loading executive dashboard data: '' @ e)])"
  by (auto simp add: load_executive_dashboard_data_body_def load_failed_def bind_render_def
        emit_def split: sum.splits list.splits)

lemma session_unique: "(x::session) = ActiveSession"
  by (cases x) simp

lemma session_reachable:
  assumes "session_resource s = Some ActiveSession \<or> active_session w = Inr ActiveSession"
  shows "fst (get_snowflake_session w s) = ([], Inr ActiveSession)"
    and "data_slot (snd (get_snowflake_session w s)) = data_slot s"
  using assms
  by (auto simp add: get_snowflake_session_def st_cache_resource_def
        get_snowflake_session_body_def Let_def session_unique split: option.splits sum.splits)

lemma cache_miss_runs_body:
  assumes "case slot of None \<Rightarrow> True | Some (stored_at, v) \<Rightarrow> stored_at + 300 \<le> now"
  shows "fst (st_cache_data 300 now slot body) = body"
  using assms by (auto simp add: st_cache_data_def Let_def split: option.splits)

text \<open>
  Claim C1. If either aggregation query returns no row or raises,
  \<open>load_executive_dashboard_data\<close> returns (None, None, None); the page (with a session
  and no fresh cached result) then renders the fallback preview: the warning banner, the
  preview KPIs and the capabilities summary card, and not the KPI dashboard.
\<close>

theorem unavailable_renders_preview:
  assumes absent: "isl (network_rows w) \<or> network_rows w = Inr [] \<or> isl (customer_rows w)
                   \<or> customer_rows w = Inr []"
  shows "snd (load_executive_dashboard_data_body w) = Inr (None, None, None)
    \<and> ((session_resource s = Some ActiveSession \<or> active_session w = Inr ActiveSession)
        \<and> (case data_slot s of None \<Rightarrow> True | Some (stored_at, v) \<Rightarrow> stored_at + 300 \<le> clock w)
       \<longrightarrow> fst (main_page w s) =
             ([CustomCss, SidebarBrand,
               PageHeader '':trophy:'' ''Executive Telco Network Intelligence Suite''
                 ''AI-Powered Network Operations Command Center'']
              @ fst (load_executive_dashboard_data_body w)
              @ fst fallback_preview @ fst page_tail, Inr ())
           \<and> Warning sync_warning \<in> set (fst (fst (main_page w s)))
           \<and> Markdown ''## :trophy: Executive Performance Dashboard''
               \<notin> set (fst (fst (main_page w s))))
    \<and> take 9 (fst fallback_preview) =
         [Warning sync_warning,
          Markdown ''### :trophy: Executive Intelligence Preview'',
          Columns 4,
          InColumn 0 (Metric ''Network Performance'' ''94.2%''),
          InColumn 1 (Metric ''Revenue Protection'' ''$2.8M''),
          InColumn 2 (Metric ''AI Efficiency'' ''92%''),
          InColumn 3 (Metric ''Risk Mitigation'' ''67%''),
          Markdown ''### :trophy: Executive AI Intelligence Platform'',
          Markdown capabilities_content]"
proof -
  have a: "snd (load_executive_dashboard_data_body w) = Inr (None, None, None)"
    using absent by (rule load_body_unavailable)
  have c: "take 9 (fst fallback_preview) =
         [Warning sync_warning,
          Markdown ''### :trophy: Executive Intelligence Preview'',
          Columns 4,
          InColumn 0 (Metric ''Network Performance'' ''94.2%''),
          InColumn 1 (Metric ''Revenue Protection'' ''$2.8M''),
          InColumn 2 (Metric ''AI Efficiency'' ''92%''),
          InColumn 3 (Metric ''Risk Mitigation'' ''67%''),
          Markdown ''### :trophy: Executive AI Intelligence Platform'',
          Markdown capabilities_content]"
    by (simp add: fallback_preview_eq)
  have b: "fst (main_page w s) =
             ([CustomCss, SidebarBrand,
               PageHeader '':trophy:'' ''Executive Telco Network Intelligence Suite''
                 ''AI-Powered Network Operations Command Center'']
              @ fst (load_executive_dashboard_data_body w)
              @ fst fallback_preview @ fst page_tail, Inr ())
           \<and> Warning sync_warning \<in> set (fst (fst (main_page w s)))
           \<and> Markdown ''## :trophy: Executive Performance Dashboard''
               \<notin> set (fst (fst (main_page w s)))"
    if reach: "session_resource s = Some ActiveSession \<or> active_session w = Inr ActiveSession"
      and miss: "case data_slot s of None \<Rightarrow> True | Some (stored_at, v) \<Rightarrow> stored_at + 300 \<le> clock w"
  proof -
    let ?s1 = "snd (get_snowflake_session w s)"
    have s1: "fst (get_snowflake_session w s) = ([], Inr ActiveSession)"
      and d1: "data_slot ?s1 = data_slot s"
      using session_reachable [OF reach] by simp_all
    have ld: "fst (load_executive_dashboard_data w ?s1) = load_executive_dashboard_data_body w"
      using miss by (simp add: load_executive_dashboard_data_def Let_def d1 cache_miss_runs_body)
    have dp: "dashboard_or_preview w (None, None, None) = fallback_preview"
      by (simp add: dashboard_or_preview_def dashboard_available_def)
    have pg: "fst (main_page w s) =
             ([CustomCss, SidebarBrand,
               PageHeader '':trophy:'' ''Executive Telco Network Intelligence Suite''
                 ''AI-Powered Network Operations Command Center'']
              @ fst (load_executive_dashboard_data_body w)
              @ fst fallback_preview @ fst page_tail, Inr ())"
      by (simp add: main_page_def Let_def s1 ld a dp bind_render_def discard_def
            inject_custom_css_def create_sidebar_navigation_def create_page_header_def
            demo_alert_def create_executive_demo_controller_def emit_def
            fallback_preview_eq page_tail_eq)
    have w1: "Warning sync_warning \<in> set (fst (fst (main_page w s)))"
      by (simp add: pg fallback_preview_eq)
    have w2: "Markdown ''## :trophy: Executive Performance Dashboard''
               \<notin> set (fst (fst (main_page w s)))"
      using load_body_elements [of w]
      by (auto simp add: pg fallback_preview_eq page_tail_eq capabilities_content_def)
    show ?thesis using pg w1 w2 by simp
  qed
  show ?thesis using a b c by blast
qed

theorem unavailable_renders_preview_witness:
  "snd (load_executive_dashboard_data_body world_no_rows) = Inr (None, None, None)
   \<and> Warning sync_warning \<in> set (fst (fst (main_page world_no_rows empty_state)))
   \<and> Markdown ''## :trophy: Executive Performance Dashboard''
       \<notin> set (fst (fst (main_page world_no_rows empty_state)))"
proof -
  have h: "isl (network_rows world_no_rows) \<or> network_rows world_no_rows = Inr []
           \<or> isl (customer_rows world_no_rows) \<or> customer_rows world_no_rows = Inr []"
    by (simp add: world_no_rows_def)
  have r: "session_resource empty_state = Some ActiveSession
           \<or> active_session world_no_rows = Inr ActiveSession"
    by (simp add: world_no_rows_def)
  have m: "case data_slot empty_state of None \<Rightarrow> True
           | Some (stored_at, v) \<Rightarrow> stored_at + 300 \<le> clock world_no_rows"
    by (simp add: empty_state_def)
  show ?thesis
    using unavailable_renders_preview [OF h, of empty_state] r m by blast
qed

text \<open>
  Claim C4, as stated: when the session cannot be reached the page renders the warning
  banner and the preview and goes on rendering. It fails: \<open>get_snowflake_session\<close>
  writes an error box and calls \<open>st.stop()\<close>, so the run halts before the header.
\<close>

theorem unreachable_session_counterexample:
  "snd (fst (main_page world_no_session empty_state)) = Inl Halted
   \<and> Warning sync_warning \<notin> set (fst (fst (main_page world_no_session empty_state)))"
  by (simp add: main_page_def Let_def world_no_session_def empty_state_def
        get_snowflake_session_def st_cache_resource_def get_snowflake_session_body_def
        create_info_box_def st_stop_def bind_render_def discard_def emit_def
        inject_custom_css_def create_sidebar_navigation_def)

text \<open>
  Claim C4, amended: when no session is cached and the warehouse session cannot be
  reached, the page renders the style sheet, the sidebar and an error box with the
  exception's message, and the run halts there by \<open>st.stop()\<close>; no exception escapes
  and the caches are left as they were.
\<close>

theorem unreachable_session_halts_page:
  assumes "session_resource s = None" and "active_session w = Inl e"
  shows "main_page w s =
           (([CustomCss, SidebarBrand,
              InfoBox ''error'' '':x:'' (''Failed to connect to Snowflake: '' @ e)],
             Inl Halted), s)"
  using assms
  by (simp add: main_page_def Let_def
        get_snowflake_session_def st_cache_resource_def get_snowflake_session_body_def
        create_info_box_def st_stop_def bind_render_def discard_def emit_def
        inject_custom_css_def create_sidebar_navigation_def)

theorem unreachable_session_halts_page_witness:
  "main_page world_no_session empty_state =
     (([CustomCss, SidebarBrand,
        InfoBox ''error'' '':x:'' ''Failed to connect to Snowflake: no active session''],
       Inl Halted), empty_state)"
proof -
  have a: "session_resource empty_state = None" by (simp add: empty_state_def)
  have b: "active_session world_no_session = Inl ''no active session''"
    by (simp add: world_no_session_def)
  show ?thesis using unreachable_session_halts_page [OF a b] by simp
qed

text \<open>
  Claim C5, as stated: after a failed query nothing is stored in the cache slot, so the
  next call runs the queries again. It fails: the exception is caught inside the cached
  function, which returns (None, None, None) like any value; the slot keeps it and a call
  ten seconds later returns it although the queries would now succeed.
\<close>

theorem failed_load_cached_counterexample:
  "data_slot (snd (load_executive_dashboard_data world_query_fails empty_state))
     = Some (0, (None, None, None))
   \<and> snd (fst (load_executive_dashboard_data world_recovered
                 (snd (load_executive_dashboard_data world_query_fails empty_state))))
       = Inr (None, None, None)
   \<and> load_executive_dashboard_data_body world_recovered
       = ([], Inr (Some (exec_kpis net_950_of_1000 cust_example),
                   Some net_950_of_1000, Some cust_example))"
  by (simp add: load_executive_dashboard_data_def st_cache_data_def Let_def
        load_executive_dashboard_data_body_def load_failed_def bind_render_def emit_def
        world_query_fails_def world_recovered_def empty_state_def)

lemma load_body_raised:
  assumes "isl (network_rows w) \<or> isl (customer_rows w)"
  shows "snd (load_executive_dashboard_data_body w) = Inr (None, None, None)"
  using assms
  by (auto simp add: load_executive_dashboard_data_body_def load_failed_def bind_render_def
        emit_def isl_def split: sum.splits list.splits)

text \<open>
  Claim C5, amended: if either aggregation query raises (on a call that runs the
  function), the caller gets the unavailable result (None, None, None) and no exception;
  that result is stored in the slot, and every call within the next 300 seconds returns
  it without running the queries and leaves the slot as it is.
\<close>

theorem failed_load_is_unavailable_and_cached:
  assumes fails: "isl (network_rows w) \<or> isl (customer_rows w)"
    and miss: "case data_slot s of None \<Rightarrow> True | Some (stored_at, v) \<Rightarrow> stored_at + 300 \<le> clock w"
    and within: "clock w' < clock w + 300"
  shows "snd (fst (load_executive_dashboard_data w s)) = Inr (None, None, None)
    \<and> data_slot (snd (load_executive_dashboard_data w s)) = Some (clock w, (None, None, None))
    \<and> snd (fst (load_executive_dashboard_data w' (snd (load_executive_dashboard_data w s))))
        = Inr (None, None, None)
    \<and> snd (load_executive_dashboard_data w' (snd (load_executive_dashboard_data w s)))
        = snd (load_executive_dashboard_data w s)"
proof -
  have b: "snd (load_executive_dashboard_data_body w) = Inr (None, None, None)"
    using fails by (rule load_body_raised)
  have r: "fst (load_executive_dashboard_data w s) = load_executive_dashboard_data_body w"
    using miss by (simp add: load_executive_dashboard_data_def Let_def cache_miss_runs_body)
  have d: "data_slot (snd (load_executive_dashboard_data w s)) = Some (clock w, (None, None, None))"
    using miss b
    by (auto simp add: load_executive_dashboard_data_def st_cache_data_def Let_def
          split: option.splits)
  have h1: "snd (fst (load_executive_dashboard_data w' (snd (load_executive_dashboard_data w s))))
        = Inr (None, None, None)"
    using within d
    by (simp add: load_executive_dashboard_data_def [of w'] st_cache_data_def Let_def)
  have h2: "snd (load_executive_dashboard_data w' (snd (load_executive_dashboard_data w s)))
        = snd (load_executive_dashboard_data w s)"
    using within d
    by (simp add: load_executive_dashboard_data_def [of w'] st_cache_data_def Let_def)
  show ?thesis using b r d h1 h2 by simp
qed

theorem failed_load_is_unavailable_and_cached_witness:
  "snd (fst (load_executive_dashboard_data world_query_fails empty_state)) = Inr (None, None, None)
   \<and> snd (fst (load_executive_dashboard_data world_recovered
                 (snd (load_executive_dashboard_data world_query_fails empty_state))))
       = Inr (None, None, None)
   \<and> snd (load_executive_dashboard_data world_recovered
            (snd (load_executive_dashboard_data world_query_fails empty_state)))
       = snd (load_executive_dashboard_data world_query_fails empty_state)"
proof -
  have a: "isl (network_rows world_query_fails) \<or> isl (customer_rows world_query_fails)"
    by (simp add: world_query_fails_def)
  have b: "case data_slot empty_state of None \<Rightarrow> True
           | Some (stored_at, v) \<Rightarrow> stored_at + 300 \<le> clock world_query_fails"
    by (simp add: empty_state_def)
  have c: "clock world_recovered < clock world_query_fails + 300"
    by (simp add: world_recovered_def world_query_fails_def)
  show ?thesis
    using failed_load_is_unavailable_and_cached [OF a b c] by blast
qed

section \<open>Imports and the demo banner\<close>

lemma no_info_emit: "(\<And>x. e \<noteq> Info x) \<Longrightarrow> Info m \<notin> set (fst (emit e))"
  by (auto simp add: emit_def)

lemma no_info_bind:
  assumes "Info m \<notin> set (fst r)" and "\<And>a. Info m \<notin> set (fst (f a))"
  shows "Info m \<notin> set (fst (bind_render r f))"
  using assms by (auto simp add: bind_render_def split: sum.splits)

lemma no_info_run_all:
  assumes "\<And>r. r \<in> set rs \<Longrightarrow> Info m \<notin> set (fst r)"
  shows "Info m \<notin> set (fst (run_all rs))"
  using assms
proof (induction rs)
  case Nil
  then show ?case by simp
next
  case (Cons r rs)
  show ?case
    unfolding run_all.simps
  proof (rule no_info_bind)
    show "Info m \<notin> set (fst r)" using Cons.prems by simp
    show "Info m \<notin> set (fst (run_all rs))" for a :: unit
      using Cons.IH Cons.prems by simp
  qed
qed

lemma no_info_in_column: "Info m \<notin> set (fst (in_column i r))"
  by (auto simp add: in_column_def)

lemma no_info_st_columns: "Info m \<notin> set (fst (st_columns n))"
  by (simp add: st_columns_def py_raise_def)

lemma no_info_st_columns_weights: "Info m \<notin> set (fst (st_columns_weights ws))"
  by (simp add: st_columns_weights_def py_raise_def)

lemma no_info_create_executive_dashboard:
  "Info m \<notin> set (fst (create_executive_dashboard kpis))"
  unfolding create_executive_dashboard_def
  by (intro no_info_bind no_info_run_all no_info_st_columns)
     (auto simp add: no_info_in_column)

lemma no_info_run_all_Nil: "Info m \<notin> set (fst (run_all []))"
  by simp

lemma no_info_run_all_Cons:
  assumes "Info m \<notin> set (fst r)" and "Info m \<notin> set (fst (run_all rs))"
  shows "Info m \<notin> set (fst (run_all (r # rs)))"
  unfolding run_all.simps using assms by (intro no_info_bind)

lemma no_info_emit_Markdown: "Info m \<notin> set (fst (emit (Markdown x)))"
  by (simp add: emit_def)

lemma no_info_executive_dashboard:
  "Info m \<notin> set (fst (executive_dashboard w kpis network_metrics))"
  unfolding executive_dashboard_def
  by (intro no_info_run_all_Cons no_info_run_all_Nil no_info_emit_Markdown
        no_info_create_executive_dashboard no_info_bind no_info_st_columns_weights
        no_info_in_column)

lemma no_info_fallback_preview: "Info m \<notin> set (fst fallback_preview)"
  by (simp add: fallback_preview_eq)

lemma no_info_page_tail: "Info m \<notin> set (fst page_tail)"
  by (simp add: page_tail_eq)

lemma no_info_dashboard_or_preview: "Info m \<notin> set (fst (dashboard_or_preview w r))"
  by (auto simp add: dashboard_or_preview_def no_info_fallback_preview
        no_info_executive_dashboard split: prod.splits option.splits)

lemma no_info_load_body: "Info m \<notin> set (fst (load_executive_dashboard_data_body w))"
  using load_body_elements [of w] by auto

lemma no_info_load: "Info m \<notin> set (fst (fst (load_executive_dashboard_data w s)))"
  using no_info_load_body [of m w]
  by (auto simp add: load_executive_dashboard_data_def st_cache_data_def Let_def
        split: option.splits prod.splits if_splits)

lemma no_info_session: "Info m \<notin> set (fst (discard (fst (get_snowflake_session w s))))"
  by (auto simp add: get_snowflake_session_def st_cache_resource_def Let_def discard_def
        get_snowflake_session_body_def create_info_box_def st_stop_def bind_render_def emit_def
        split: option.splits sum.splits)

lemma no_info_static:
  "Info m \<notin> set (fst inject_custom_css)"
  "Info m \<notin> set (fst create_sidebar_navigation)"
  "Info m \<notin> set (fst (create_page_header title description icon))"
  "Info m \<notin> set (fst (demo_alert create_executive_demo_controller))"
  by (simp_all add: inject_custom_css_def create_sidebar_navigation_def create_page_header_def
        demo_alert_def create_executive_demo_controller_def emit_def)

lemma no_info_main_page: "Info m \<notin> set (fst (fst (main_page w s)))"
  unfolding main_page_def Let_def fst_conv
  by (intro no_info_run_all_Cons no_info_run_all_Nil no_info_static no_info_session
        no_info_bind no_info_load no_info_dashboard_or_preview no_info_page_tail)

lemma first_import_partial:
  "import_from design_system_names first_import []
     = (rev (map (\<lambda>n. (n, DesignSystem)) (take 14 first_import)), True)"
  by (simp add: design_system_names_def first_import_def)

lemma import_from_defined:
  "set names \<subseteq> set defined \<Longrightarrow>
   import_from defined names ns = (rev (map (\<lambda>n. (n, DesignSystem)) names) @ ns, False)"
  by (induction names arbitrary: ns) auto

lemma second_import_defined: "set second_import \<subseteq> set design_system_names"
  by (simp add: design_system_names_def second_import_def)

lemma main_bindings_eq:
  "main_bindings =
     Some (map (\<lambda>n. (n, MainFallback)) (rev fallback_defs)
           @ rev (map (\<lambda>n. (n, DesignSystem)) second_import)
           @ rev (map (\<lambda>n. (n, DesignSystem)) (take 14 first_import)))"
  by (simp add: main_bindings_def first_import_partial
        import_from_defined [OF second_import_defined])

lemma map_of_fallback:
  "n \<in> set names \<Longrightarrow> map_of (map (\<lambda>n. (n, MainFallback)) names @ others) n = Some MainFallback"
  by (induction names) auto

lemma main_bindings_fallbacks:
  "map_option (\<lambda>ns. map (map_of ns) fallback_defs) main_bindings
     = Some (replicate 10 (Some MainFallback))"
proof -
  have m: "map (map_of (map (\<lambda>n. (n, MainFallback)) (rev fallback_defs) @ others)) fallback_defs
          = map (\<lambda>_. Some MainFallback) fallback_defs" for others
    by (rule map_cong) (simp_all add: map_of_fallback del: map_of_append)
  have l: "length fallback_defs = 10" by (simp add: fallback_defs_def)
  show ?thesis
    unfolding main_bindings_eq
    by (simp add: m l map_replicate_const del: map_of_append)
qed

lemma first_import_raises: "snd (import_from design_system_names first_import [])"
  by (simp add: first_import_partial)

lemma demo_message_baseline:
  "demo_banner_message create_executive_demo_controller
     = '':clapper: Executive Demo Active - Scenario: Baseline''"
  by (simp add: demo_banner_message_def create_executive_demo_controller_def py_title_def
        replace_char_def upper_char_def lower_char_def lower_letters_def upper_letters_def)

text \<open>
  Claim C8. design_system.py defines none of the five \<open>create_executive_*\<close> names, so
  the first import of main.py raises ImportError and the ten fallback definitions are
  the ones bound; \<open>create_executive_demo_controller\<close> returns the baseline scenario with
  \<open>demo_active\<close> false, and no run of the page renders the demo banner.
\<close>

theorem fallback_definitions_always_bound:
  "filter (\<lambda>n. n \<in> set design_system_names)
      [''create_executive_dashboard'', ''create_executive_navigation_grid'',
       ''create_executive_summary_card'', ''create_executive_alert_banner'',
       ''create_executive_demo_controller''] = []
   \<and> snd (import_from design_system_names first_import [])
   \<and> map_option (\<lambda>ns. map (map_of ns) fallback_defs) main_bindings
       = Some (replicate 10 (Some MainFallback))
   \<and> create_executive_demo_controller = \<lparr>current_scenario = ''baseline'', demo_active = False\<rparr>
   \<and> demo_alert create_executive_demo_controller = ([], Inr ())
   \<and> demo_banner_message create_executive_demo_controller
       = '':clapper: Executive Demo Active - Scenario: Baseline''
   \<and> Info (demo_banner_message create_executive_demo_controller)
       \<notin> set (fst (fst (main_page w s)))"
proof -
  have a: "filter (\<lambda>n. n \<in> set design_system_names)
      [''create_executive_dashboard'', ''create_executive_navigation_grid'',
       ''create_executive_summary_card'', ''create_executive_alert_banner'',
       ''create_executive_demo_controller''] = []"
    by (simp add: design_system_names_def)
  have d: "create_executive_demo_controller = \<lparr>current_scenario = ''baseline'', demo_active = False\<rparr>"
    by (simp add: create_executive_demo_controller_def)
  have e: "demo_alert create_executive_demo_controller = ([], Inr ())"
    by (simp add: demo_alert_def create_executive_demo_controller_def)
  show ?thesis
    using a first_import_raises main_bindings_fallbacks d e demo_message_baseline
      no_info_main_page [of "demo_banner_message create_executive_demo_controller" w s]
    by (simp only: simp_thms)
qed

end
